theory Spec2Isabelle
  imports Complex_Main
begin

section \<open>Python values and exceptions\<close>

text \<open>
  The module \<^verbatim>\<open>src_py/ftfont.py\<close> adapts the freetype engine's font type to the
  interface of the older font module. Its arguments are dynamically typed, so the
  values that reach it are modelled by one datatype: \<^verbatim>\<open>None\<close>, booleans, unbounded
  integers, floats (only the constants \<^verbatim>\<open>1.0\<close> and \<^verbatim>\<open>1.0 / 12.0\<close> occur, kept as exact
  rationals), Unicode strings as lists of code points, byte strings, and any other
  object (a file object, a colour) as an identity together with the truth value its
  \<^verbatim>\<open>__bool__\<close> reports.
\<close>

datatype pyval =
    PNone
  | PBool bool
  | PInt int
  | PFloat rat
  | PUnicode "nat list"
  | PBytes "char list"
  | PObject nat bool

text \<open>\<^verbatim>\<open>bool(value)\<close>.\<close>

fun truthy :: "pyval \<Rightarrow> bool" where
  "truthy PNone = False"
| "truthy (PBool b) = b"
| "truthy (PInt n) = (n \<noteq> 0)"
| "truthy (PFloat r) = (r \<noteq> 0)"
| "truthy (PUnicode u) = (u \<noteq> [])"
| "truthy (PBytes b) = (b \<noteq> [])"
| "truthy (PObject i t) = t"

text \<open>\<^verbatim>\<open>isinstance(v, unicode_)\<close>, \<^verbatim>\<open>isinstance(v, bytes_)\<close> and \<^verbatim>\<open>isinstance(v, bool)\<close>.\<close>

fun is_unicode :: "pyval \<Rightarrow> bool" where
  "is_unicode (PUnicode u) = True"
| "is_unicode v = False"

fun is_bytes :: "pyval \<Rightarrow> bool" where
  "is_bytes (PBytes b) = True"
| "is_bytes v = False"

fun is_bool :: "pyval \<Rightarrow> bool" where
  "is_bool (PBool b) = True"
| "is_bool v = False"

text \<open>
  The exceptions that leave the module: the \<^verbatim>\<open>ValueError\<close> of \<^verbatim>\<open>render\<close> with its
  message, the \<^verbatim>\<open>NameError\<close> of a name that is bound nowhere, and whatever the engine
  raises, which the module passes on unchanged.
\<close>

datatype py_error =
    ValueError string
  | NameError string
  | EngineError nat

text \<open>
  \<^verbatim>\<open>needle in text\<close> on two strings of the same kind: \<^verbatim>\<open>needle\<close> occurs in \<^verbatim>\<open>text\<close> as
  a contiguous run.
\<close>

fun py_in :: "'a list \<Rightarrow> 'a list \<Rightarrow> bool" where
  "py_in needle [] = (needle = [])"
| "py_in needle (c # cs) = (take (length needle) (c # cs) = needle \<or> py_in needle cs)"

section \<open>The engine\<close>

text \<open>
  Modelled from the spec: the engine's font type \<^verbatim>\<open>pygame._freetype.Font\<close> is not among
  the sources. The spec lists what the adapter consumes of it: the mutable flags
  antialiased, wide, oblique, underline, kerning, origin, pad, ucs4 mode, underline
  adjustment and stroke strength, held here as attributes that can store any value,
  and the engine's own handle (face, size, resolution), which the adapter never looks
  into.
\<close>

record font =
  antialiased :: pyval
  wide :: pyval
  oblique :: pyval
  underline :: pyval
  strength :: pyval
  kerning :: pyval
  origin :: pyval
  pad :: pyval
  ucs4 :: pyval
  underline_adjustment :: pyval
  handle :: nat

type_synonym surface = nat
type_synonym rect = nat

text \<open>
  What the module imports and calls, taken as parameters:
  \<^item> \<open>get_default_resolution\<close>: \<^verbatim>\<open>_freetype.get_default_resolution()\<close>;
  \<^item> \<open>default_font\<close>: the class constant \<^verbatim>\<open>encode_file_path(get_default_font())\<close>;
  \<^item> \<open>encode_file_path\<close>: \<^verbatim>\<open>encode_file_path(file, ValueError)\<close> on a Unicode path,
    \<open>None\<close> when it raises the \<^verbatim>\<open>ValueError\<close>;
  \<^item> \<open>str_is_bytes\<close>: whether a plain string literal is a byte string (Python 2) or a
    Unicode string (Python 3); the module runs on both through \<^verbatim>\<open>pygame.compat\<close>;
  \<^item> \<open>super_init\<close>: \<^verbatim>\<open>_Font.__init__(file, size=size, resolution=resolution)\<close>, the new
    instance or the engine's exception;
  \<^item> \<open>super_render\<close>: \<^verbatim>\<open>_Font.render(text, color, background)\<close> on the instance as it is
    at the call: the surface and rectangle, or the engine's exception, and the
    instance as the engine leaves it;
  \<^item> \<open>get_sized_ascender\<close>, \<open>get_sized_descender\<close>: the engine's sized metrics.
\<close>

record engine =
  get_default_resolution :: int
  default_font :: "char list"
  encode_file_path :: "nat list \<Rightarrow> char list option"
  str_is_bytes :: bool
  super_init :: "pyval \<Rightarrow> int \<Rightarrow> int \<Rightarrow> py_error + font"
  super_render :: "font \<Rightarrow> pyval \<Rightarrow> pyval \<Rightarrow> pyval \<Rightarrow> (py_error + surface \<times> rect) \<times> font"
  get_sized_ascender :: "font \<Rightarrow> py_error + int"
  get_sized_descender :: "font \<Rightarrow> py_error + int"

text \<open>The string literals \<^verbatim>\<open>''\<close> and \<^verbatim>\<open>""\<close> of the source.\<close>

definition empty_str :: "engine \<Rightarrow> pyval" where
  "empty_str e = (if str_is_bytes e then PBytes [] else PUnicode [])"

text \<open>
  Modelled from the spec: \<^verbatim>\<open>as_unicode\<close> and \<^verbatim>\<open>as_bytes\<close> of \<^verbatim>\<open>pygame.compat\<close> are not
  among the sources. \<^verbatim>\<open>__unull = as_unicode(r"\x00")\<close> decodes the escape of its raw
  literal and \<^verbatim>\<open>__bnull = as_bytes("\x00")\<close> encodes its literal: the spec calls them
  the null code point and the raw null byte.
\<close>

definition unull :: "nat list" where
  "unull = [0]"

definition bnull :: "char list" where
  "bnull = [CHR 0x00]"

section \<open>Font\<close>

subsection \<open>The constructor\<close>

text \<open>
  \<^verbatim>\<open>int(self.__get_default_resolution() * 0.6875)\<close>. The factor is 11/16, a binary
  fraction, so the float product is exact for every resolution the engine can hold
  (an unsigned 32-bit value), and \<^verbatim>\<open>int\<close> truncates toward zero.
\<close>

definition int_times_0_6875 :: "int \<Rightarrow> int" where
  "int_times_0_6875 r = (if 0 \<le> r then (11 * r) div 16 else - ((11 * (- r)) div 16))"

text \<open>
  \<^verbatim>\<open>Font.__init__\<close> up to its call of the engine's constructor (lines 30 to 46): the
  arguments \<^verbatim>\<open>(file, size, resolution)\<close> it hands to \<^verbatim>\<open>super().__init__\<close>, or the
  exception raised before the call. In the branch \<^verbatim>\<open>resolution == 0\<close> the source
  assigns to \<^verbatim>\<open>kwds['resolution']\<close>; no \<^verbatim>\<open>kwds\<close> is bound in the function or the module,
  so the statement raises \<^verbatim>\<open>NameError\<close>.
\<close>

definition init_args :: "engine \<Rightarrow> pyval \<Rightarrow> int \<Rightarrow> py_error + pyval \<times> int \<times> int" where
  "init_args e file0 size0 =
     (let sz = (if size0 \<le> 1 then 1 else size0);
          bfile = (case file0 of
                     PUnicode u \<Rightarrow>
                       (case encode_file_path e u of
                          Some b \<Rightarrow> PBytes b
                        | None \<Rightarrow> empty_str e)
                   | _ \<Rightarrow> file0);
          file = (if is_bytes bfile \<and> bfile = PBytes (default_font e) then PNone else file0)
      in if file = PNone
         then (let resolution = int_times_0_6875 (get_default_resolution e)
               in if resolution = 0 then Inl (NameError ''kwds'')
                  else Inr (file, sz, resolution))
         else Inr (file, sz, 0))"

text \<open>
  \<^verbatim>\<open>Font.__init__\<close>: the engine's constructor on those arguments, then the fixed
  attributes (lines 47 to 53).
\<close>

definition Font_init :: "engine \<Rightarrow> pyval \<Rightarrow> int \<Rightarrow> py_error + font" where
  "Font_init e file0 size0 =
     (case init_args e file0 size0 of
        Inl err \<Rightarrow> Inl err
      | Inr (file, sz, resolution) \<Rightarrow>
          (case super_init e file sz resolution of
             Inl err \<Rightarrow> Inl err
           | Inr self \<Rightarrow>
               Inr (self\<lparr>strength := PFloat (1 / 12),
                         kerning := PBool False,
                         origin := PBool True,
                         pad := PBool True,
                         ucs4 := PBool True,
                         underline_adjustment := PFloat 1\<rparr>)))"

subsection \<open>render\<close>

text \<open>
  A call of the engine's render primitive as the engine sees it: the instance at the
  moment of the call and the three arguments.
\<close>

datatype engine_call = Call_render font pyval pyval pyval

text \<open>The null-character tests of \<^verbatim>\<open>render\<close> (lines 61 to 66).\<close>

definition has_null :: "pyval \<Rightarrow> bool" where
  "has_null text =
     (case text of
        PUnicode u \<Rightarrow> py_in unull u
      | PBytes b \<Rightarrow> py_in bnull b
      | _ \<Rightarrow> False)"

text \<open>
  \<^verbatim>\<open>Font.render\<close>: the returned surface or the exception, the instance afterwards, and
  the calls of the engine's render primitive that were made. The \<^verbatim>\<open>finally\<close> clause
  runs after the engine's call on both of its outcomes.
\<close>

definition render ::
  "engine \<Rightarrow> font \<Rightarrow> pyval \<Rightarrow> pyval \<Rightarrow> pyval \<Rightarrow> pyval
     \<Rightarrow> (py_error + surface) \<times> font \<times> engine_call list" where
  "render e self text0 antialias color background =
     (let text = (if text0 = PNone then empty_str e else text0)
      in if has_null text
         then (Inl (ValueError ''A null character was found in the text''), self, [])
         else
           (let save_antialiased = antialiased self;
                self1 = self\<lparr>antialiased := PBool (truthy antialias)\<rparr>;
                (res, self2) = super_render e self1 text color background;
                self3 = self2\<lparr>antialiased := save_antialiased\<rparr>
            in (case res of
                  Inl err \<Rightarrow> (Inl err, self3, [Call_render self1 text color background])
                | Inr (s, r) \<Rightarrow> (Inr s, self3, [Call_render self1 text color background]))))"

subsection \<open>Style flags\<close>

definition set_bold :: "font \<Rightarrow> pyval \<Rightarrow> font" where
  "set_bold self v = self\<lparr>wide := PBool (truthy v)\<rparr>"

definition get_bold :: "font \<Rightarrow> pyval" where
  "get_bold self = wide self"

definition set_italic :: "font \<Rightarrow> pyval \<Rightarrow> font" where
  "set_italic self v = self\<lparr>oblique := PBool (truthy v)\<rparr>"

definition get_italic :: "font \<Rightarrow> pyval" where
  "get_italic self = oblique self"

definition set_underline :: "font \<Rightarrow> pyval \<Rightarrow> font" where
  "set_underline self v = self\<lparr>underline := PBool (truthy v)\<rparr>"

definition get_underline :: "font \<Rightarrow> pyval" where
  "get_underline self = underline self"

subsection \<open>Metrics\<close>

definition get_ascent :: "engine \<Rightarrow> font \<Rightarrow> py_error + int" where
  "get_ascent e self = get_sized_ascender e self"

definition get_descent :: "engine \<Rightarrow> font \<Rightarrow> py_error + int" where
  "get_descent e self = get_sized_descender e self"

text \<open>
  \<^verbatim>\<open>self.get_sized_ascender() - self.get_sized_descender() + 1\<close>: the left operand is
  evaluated first, and an exception of either call ends the expression.
\<close>

definition get_height :: "engine \<Rightarrow> font \<Rightarrow> py_error + int" where
  "get_height e self =
     (case get_sized_ascender e self of
        Inl err \<Rightarrow> Inl err
      | Inr a \<Rightarrow>
          (case get_sized_descender e self of
             Inl err \<Rightarrow> Inl err
           | Inr d \<Rightarrow> Inr (a - d + 1)))"

section \<open>SysFont\<close>

type_synonym constructor = "pyval \<Rightarrow> int \<Rightarrow> pyval \<Rightarrow> pyval \<Rightarrow> py_error + font"

text \<open>The constructor that \<^verbatim>\<open>SysFont\<close> defines when it is given none (lines 178 to 182).\<close>

definition default_constructor :: "engine \<Rightarrow> constructor" where
  "default_constructor e fontpath sz bold italic =
     (case Font_init e fontpath sz of
        Inl err \<Rightarrow> Inl err
      | Inr font \<Rightarrow> Inr (set_italic (set_bold font bold) italic))"

text \<open>
  \<^verbatim>\<open>SysFont\<close>; its first parameter is \<^verbatim>\<open>_SysFont\<close>, the function imported from
  \<^verbatim>\<open>pygame.sysfont\<close>.
\<close>

definition SysFont ::
  "engine \<Rightarrow> (pyval \<Rightarrow> int \<Rightarrow> pyval \<Rightarrow> pyval \<Rightarrow> constructor \<Rightarrow> py_error + font)
     \<Rightarrow> pyval \<Rightarrow> int \<Rightarrow> pyval \<Rightarrow> pyval \<Rightarrow> constructor option \<Rightarrow> py_error + font" where
  "SysFont e sysfont name sz bold italic constructor =
     sysfont name sz bold italic
       (case constructor of None \<Rightarrow> default_constructor e | Some c \<Rightarrow> c)"

text \<open>
  Modelled from the spec: \<^verbatim>\<open>pygame.sysfont.SysFont\<close> is not among the sources. The spec
  gives the matcher one operation, \<^verbatim>\<open>resolve(nameList, bold, italic)\<close>, which always
  returns a path (a fallback rather than an error), and has the font built from that
  path by the constructor callback \<^verbatim>\<open>(path, size, bold, italic)\<close>.
\<close>

definition sysfont_SysFont ::
  "(pyval \<Rightarrow> pyval \<Rightarrow> pyval \<Rightarrow> pyval)
     \<Rightarrow> pyval \<Rightarrow> int \<Rightarrow> pyval \<Rightarrow> pyval \<Rightarrow> constructor \<Rightarrow> py_error + font" where
  "sysfont_SysFont resolve name sz bold italic constructor =
     constructor (resolve name bold italic) sz bold italic"

section \<open>A concrete engine\<close>

text \<open>
  An engine to evaluate the definitions on: the default resolution of 72, the default
  font \<^verbatim>\<open>freesansbold.ttf\<close>, a path encoder that knows two file names and fails on
  every other string, Python 3 string literals, a constructor that loads the default
  font and \<^verbatim>\<open>font.ttf\<close> and raises on anything else, and a render primitive that
  raises when it is given no colour.
\<close>

definition sample_font :: font where
  "sample_font =
     \<lparr>antialiased = PBool True, wide = PBool False, oblique = PBool False,
      underline = PBool False, strength = PFloat (1 / 36), kerning = PBool True,
      origin = PBool False, pad = PBool False, ucs4 = PBool False,
      underline_adjustment = PFloat 1, handle = 0\<rparr>"

definition sample_encode :: "nat list \<Rightarrow> char list option" where
  "sample_encode u =
     (if u = [102, 111, 110, 116, 46, 116, 116, 102] then Some ''font.ttf''
      else if u = [102, 114, 101, 101, 115, 97, 110, 115, 98, 111, 108, 100, 46, 116, 116, 102]
      then Some ''freesansbold.ttf''
      else None)"

definition sample_super_init :: "pyval \<Rightarrow> int \<Rightarrow> int \<Rightarrow> py_error + font" where
  "sample_super_init file sz resolution =
     (case file of
        PNone \<Rightarrow> Inr (sample_font\<lparr>handle := 1\<rparr>)
      | PBytes b \<Rightarrow>
          if b = ''font.ttf'' then Inr (sample_font\<lparr>handle := 2\<rparr>) else Inl (EngineError 2)
      | PUnicode u \<Rightarrow>
          if sample_encode u = Some ''font.ttf'' then Inr (sample_font\<lparr>handle := 2\<rparr>)
          else Inl (EngineError 2)
      | _ \<Rightarrow> Inl (EngineError 1))"

definition sample_super_render ::
  "font \<Rightarrow> pyval \<Rightarrow> pyval \<Rightarrow> pyval \<Rightarrow> (py_error + surface \<times> rect) \<times> font" where
  "sample_super_render self text color background =
     (if color = PNone then (Inl (EngineError 3), self) else (Inr (7, 8), self))"

definition sample_engine :: engine where
  "sample_engine =
     \<lparr>get_default_resolution = 72,
      default_font = ''freesansbold.ttf'',
      encode_file_path = sample_encode,
      str_is_bytes = False,
      super_init = sample_super_init,
      super_render = sample_super_render,
      get_sized_ascender = (\<lambda>self. Inr 10),
      get_sized_descender = (\<lambda>self. Inr (- 3))\<rparr>"

text \<open>The same engine after \<^verbatim>\<open>freetype.init(resolution=1)\<close>.\<close>

definition low_res_engine :: engine where
  "low_res_engine = sample_engine\<lparr>get_default_resolution := 1\<rparr>"

text \<open>
  A resolver that finds no font of any name and falls back on the built-in font,
  which the constructor receives as \<^verbatim>\<open>None\<close>.
\<close>

definition fallback_resolve :: "pyval \<Rightarrow> pyval \<Rightarrow> pyval \<Rightarrow> pyval" where
  "fallback_resolve name bold italic = PNone"

text \<open>
  Two more engines: one whose constructor records the size it is given in the handle,
  and one whose render primitive returns 1 or 0 as the surface according to the
  antialiased flag of the instance it is called on, and raises when that flag is not a
  boolean.
\<close>

definition size_recording_init :: "pyval \<Rightarrow> int \<Rightarrow> int \<Rightarrow> py_error + font" where
  "size_recording_init file sz resolution = Inr (sample_font\<lparr>handle := nat sz\<rparr>)"

definition size_recording_engine :: engine where
  "size_recording_engine = sample_engine\<lparr>super_init := size_recording_init\<rparr>"

definition flag_reading_render ::
  "font \<Rightarrow> pyval \<Rightarrow> pyval \<Rightarrow> pyval \<Rightarrow> (py_error + surface \<times> rect) \<times> font" where
  "flag_reading_render self text color background =
     (if antialiased self = PBool True then (Inr (1, 0), self)
      else if antialiased self = PBool False then (Inr (0, 0), self)
      else (Inl (EngineError 4), self))"

definition flag_reading_engine :: engine where
  "flag_reading_engine = sample_engine\<lparr>super_render := flag_reading_render\<rparr>"

section \<open>Properties of the constructor\<close>

lemma int_times_0_6875_floor:
  "0 \<le> r \<Longrightarrow> int_times_0_6875 r = \<lfloor>0.6875 * real_of_int r\<rfloor>"
proof -
  assume "0 \<le> r"
  have "0.6875 * real_of_int r = real_of_int (11 * r) / real_of_int 16"
    by simp
  then have "\<lfloor>0.6875 * real_of_int r\<rfloor> = (11 * r) div 16"
    by (simp only: floor_divide_of_int_eq)
  with \<open>0 \<le> r\<close> show ?thesis
    by (simp add: int_times_0_6875_def)
qed

lemma int_times_0_6875_zero: "int_times_0_6875 r = 0 \<longleftrightarrow> - 1 \<le> r \<and> r \<le> 1"
  by (auto simp add: int_times_0_6875_def)

lemma int_times_0_6875_max:
  "2 \<le> r \<Longrightarrow> int_times_0_6875 r = max 1 \<lfloor>0.6875 * real_of_int r\<rfloor>"
proof -
  assume r: "2 \<le> r"
  then have "1 \<le> int_times_0_6875 r"
    by (simp add: int_times_0_6875_def)
  with r show ?thesis
    using int_times_0_6875_floor [of r] by simp
qed

text \<open>
  The default-font marker (\<^verbatim>\<open>None\<close>, or a path that is or encodes to the default font's
  path) with a default resolution of at least 2: the engine receives \<^verbatim>\<open>None\<close> and the
  scaled resolution, which is then at least 1.
\<close>

lemma init_args_default_marker:
  assumes "file = PNone \<or> file = PBytes (default_font e) \<or>
      (\<exists>u. file = PUnicode u \<and> encode_file_path e u = Some (default_font e))"
    and "2 \<le> get_default_resolution e"
  shows "init_args e file s =
    Inr (PNone, if s \<le> 1 then 1 else s,
         max 1 \<lfloor>0.6875 * real_of_int (get_default_resolution e)\<rfloor>)"
proof -
  from assms(2) have nz: "int_times_0_6875 (get_default_resolution e) \<noteq> 0"
    by (simp add: int_times_0_6875_zero)
  from assms(1) nz have "init_args e file s =
      Inr (PNone, if s \<le> 1 then 1 else s, int_times_0_6875 (get_default_resolution e))"
    by (auto simp add: init_args_def)
  with assms(2) show ?thesis
    by (simp add: int_times_0_6875_max)
qed

text \<open>The same marker with a default resolution of 0 or 1: the constructor raises.\<close>

lemma init_args_default_marker_low:
  assumes "file = PNone \<or> file = PBytes (default_font e) \<or>
      (\<exists>u. file = PUnicode u \<and> encode_file_path e u = Some (default_font e))"
    and "0 \<le> get_default_resolution e" and "get_default_resolution e \<le> 1"
  shows "init_args e file s = Inl (NameError ''kwds'')"
proof -
  from assms(2,3) have "int_times_0_6875 (get_default_resolution e) = 0"
    by (simp add: int_times_0_6875_zero)
  with assms(1) show ?thesis
    by (auto simp add: init_args_def)
qed

text \<open>
  Any other byte path, object, or Unicode path that encodes to another path: the
  engine receives the argument as given, with the resolution 0.
\<close>

lemma init_args_other_path:
  assumes "(\<exists>b. file = PBytes b \<and> b \<noteq> default_font e) \<or> (\<exists>i t. file = PObject i t) \<or>
      (\<exists>u b. file = PUnicode u \<and> encode_file_path e u = Some b \<and> b \<noteq> default_font e)"
  shows "init_args e file s = Inr (file, if s \<le> 1 then 1 else s, 0)"
  using assms by (auto simp add: init_args_def)

text \<open>
  C2. The claim: with the default-font marker the resolution handed to the engine is
  \<open>max 1 \<lfloor>0.6875 * r\<rfloor>\<close> for the engine's default resolution \<open>r\<close>, never 0, and with any
  other path it is 0. For \<open>2 \<le> r\<close> and for other paths the lemmas above show it. At
  \<open>r = 1\<close> the product truncates to 0, the source reaches \<^verbatim>\<open>kwds['resolution'] = 1\<close>, and
  the constructor ends in \<^verbatim>\<open>NameError\<close> without calling the engine.
\<close>

theorem init_zero_resolution:
  "init_args low_res_engine PNone 12 = Inl (NameError ''kwds'') \<and>
   Font_init low_res_engine PNone 12 = Inl (NameError ''kwds'')"
  by (simp add: Font_init_def init_args_def low_res_engine_def sample_engine_def
      int_times_0_6875_def)

text \<open>
  C3. The claim: a Unicode path whose encoding fails is treated as a request for the
  default font. As stated it fails: for the path \<^verbatim>\<open>"\xe9"\<close>, which the encoder rejects,
  the constructor hands the engine that same path with the resolution 0, where a
  request for the default font hands it \<^verbatim>\<open>None\<close> with the resolution 49.
\<close>

theorem init_unencodable_counterexample:
  "encode_file_path sample_engine [233] = None \<and>
   init_args sample_engine (PUnicode [233]) 12 = Inr (PUnicode [233], 12, 0) \<and>
   init_args sample_engine PNone 12 = Inr (PNone, 12, 49)"
  by (simp add: init_args_def sample_engine_def sample_encode_def empty_str_def
      int_times_0_6875_def)

text \<open>
  C3, amended. When the encoding of a Unicode path fails, the constructor catches the
  error and goes on as for any path that is not the default font: the engine's
  constructor receives the path as the caller gave it, the clamped size and the
  resolution 0, and its outcome is the constructor's. (The stand-in \<^verbatim>\<open>''\<close> for the
  encoded path is a byte string only on Python 2, where it matches the default font
  only if that path is empty.)
\<close>

theorem init_unencodable:
  "encode_file_path e u = None \<Longrightarrow> \<not> str_is_bytes e \<or> default_font e \<noteq> [] \<Longrightarrow>
     init_args e (PUnicode u) s = Inr (PUnicode u, if s \<le> 1 then 1 else s, 0) \<and>
     Font_init e (PUnicode u) s =
       (case super_init e (PUnicode u) (if s \<le> 1 then 1 else s) 0 of
          Inl err \<Rightarrow> Inl err
        | Inr self \<Rightarrow>
            Inr (self\<lparr>strength := PFloat (1 / 12), kerning := PBool False,
                      origin := PBool True, pad := PBool True, ucs4 := PBool True,
                      underline_adjustment := PFloat 1\<rparr>))"
  by (auto simp add: Font_init_def init_args_def empty_str_def)

theorem init_unencodable_witness:
  "encode_file_path sample_engine [233] = None \<and>
   \<not> str_is_bytes sample_engine \<and>
   init_args sample_engine (PUnicode [233]) 0 = Inr (PUnicode [233], 1, 0) \<and>
   Font_init sample_engine (PUnicode [233]) 0 = Inl (EngineError 2)"
proof -
  have enc: "encode_file_path sample_engine [233] = None"
    by (simp add: sample_engine_def sample_encode_def)
  have py3: "\<not> str_is_bytes sample_engine"
    by (simp add: sample_engine_def)
  then have str: "\<not> str_is_bytes sample_engine \<or> default_font sample_engine \<noteq> []"
    by simp
  have eng: "super_init sample_engine (PUnicode [233]) 1 0 = Inl (EngineError 2)"
    by (simp add: sample_engine_def sample_super_init_def sample_encode_def)
  from init_unencodable [OF enc str, of 0] enc py3 eng show ?thesis
    by simp
qed

text \<open>
  C5. The constructor hands the engine's constructor the size 1 for every size
  argument of at most 1, and the size argument itself when that is greater than 1:
  its result is the engine's result on that size, with the fixed attributes set. The
  one case in which it does not reach the engine is the \<^verbatim>\<open>NameError\<close> of the
  default-font branch at a scaled resolution of 0.
\<close>

theorem init_size_clamped:
  "(\<exists>file r.
      init_args e file0 s = Inr (file, if s \<le> 1 then 1 else s, r) \<and>
      Font_init e file0 s =
        (case super_init e file (if s \<le> 1 then 1 else s) r of
           Inl err \<Rightarrow> Inl err
         | Inr self \<Rightarrow>
             Inr (self\<lparr>strength := PFloat (1 / 12), kerning := PBool False,
                       origin := PBool True, pad := PBool True, ucs4 := PBool True,
                       underline_adjustment := PFloat 1\<rparr>))) \<or>
   (init_args e file0 s = Inl (NameError ''kwds'') \<and>
    Font_init e file0 s = Inl (NameError ''kwds'') \<and>
    int_times_0_6875 (get_default_resolution e) = 0 \<and>
    (file0 = PNone \<or> file0 = PBytes (default_font e) \<or>
     (\<exists>u. file0 = PUnicode u \<and>
        (encode_file_path e u = Some (default_font e) \<or>
         encode_file_path e u = None \<and> str_is_bytes e \<and> default_font e = []))))"
proof (cases "init_args e file0 s")
  case (Inl err)
  then have "err = NameError ''kwds'' \<and>
    int_times_0_6875 (get_default_resolution e) = 0 \<and>
    (file0 = PNone \<or> file0 = PBytes (default_font e) \<or>
     (\<exists>u. file0 = PUnicode u \<and>
        (encode_file_path e u = Some (default_font e) \<or>
         encode_file_path e u = None \<and> str_is_bytes e \<and> default_font e = [])))"
    by (cases file0)
      (auto simp add: init_args_def Let_def empty_str_def split: if_splits option.splits)
  with Inl show ?thesis
    by (simp add: Font_init_def)
next
  case (Inr args)
  obtain f sz r where args: "args = (f, sz, r)"
    by (cases args)
  from Inr args have "sz = (if s \<le> 1 then 1 else s)"
    by (auto simp add: init_args_def Let_def split: if_splits)
  with Inr args show ?thesis
    by (simp add: Font_init_def)
qed

theorem init_size_clamped_witness:
  "Font_init size_recording_engine (PBytes ''font.ttf'') (- 1) =
     Inr (sample_font\<lparr>strength := PFloat (1 / 12), kerning := PBool False, origin := PBool True,
            pad := PBool True, ucs4 := PBool True, handle := 1\<rparr>) \<and>
   Font_init size_recording_engine PNone 12 =
     Inr (sample_font\<lparr>strength := PFloat (1 / 12), kerning := PBool False, origin := PBool True,
            pad := PBool True, ucs4 := PBool True, handle := 12\<rparr>)"
proof -
  let ?post = "\<lambda>r. case r of
      Inl err \<Rightarrow> Inl err
    | Inr self \<Rightarrow>
        Inr (self\<lparr>strength := PFloat (1 / 12), kerning := PBool False, origin := PBool True,
                  pad := PBool True, ucs4 := PBool True, underline_adjustment := PFloat 1\<rparr>)"
  have a: "init_args size_recording_engine (PBytes ''font.ttf'') (- 1) =
      Inr (PBytes ''font.ttf'', 1, 0)"
    by (simp add: init_args_def size_recording_engine_def sample_engine_def)
  have b: "init_args size_recording_engine PNone 12 = Inr (PNone, 12, 49)"
    by (simp add: init_args_def size_recording_engine_def sample_engine_def
        int_times_0_6875_def)
  have eng: "super_init size_recording_engine f sz r = Inr (sample_font\<lparr>handle := nat sz\<rparr>)"
    for f sz r
    by (simp add: size_recording_engine_def sample_engine_def size_recording_init_def)
  from init_size_clamped [of size_recording_engine "PBytes ''font.ttf''" "- 1"] a
  have "Font_init size_recording_engine (PBytes ''font.ttf'') (- 1) =
      ?post (super_init size_recording_engine (PBytes ''font.ttf'') 1 0)"
    by auto
  moreover from init_size_clamped [of size_recording_engine PNone 12] b
  have "Font_init size_recording_engine PNone 12 =
      ?post (super_init size_recording_engine PNone 12 49)"
    by auto
  ultimately show ?thesis
    by (simp add: eng sample_font_def)
qed

section \<open>Properties of render\<close>

lemma py_in_single: "py_in [z] xs \<longleftrightarrow> z \<in> set xs"
  by (induction xs) auto

text \<open>
  C1. For every Unicode text that contains the code point 0 and every byte text that
  contains the byte 0, \<^verbatim>\<open>render\<close> raises the \<^verbatim>\<open>ValueError\<close>, leaves the instance as it
  was and makes no call of the engine's render primitive.
\<close>

theorem render_rejects_null:
  "(0 \<in> set u \<longrightarrow>
      render e self (PUnicode u) antialias color background =
        (Inl (ValueError ''A null character was found in the text''), self, [])) \<and>
   (CHR 0x00 \<in> set b \<longrightarrow>
      render e self (PBytes b) antialias color background =
        (Inl (ValueError ''A null character was found in the text''), self, []))"
  by (simp add: render_def has_null_def unull_def bnull_def py_in_single)

theorem render_rejects_null_witness:
  "render sample_engine sample_font (PUnicode [97, 0, 98]) (PBool True) (PObject 1 True) PNone =
     (Inl (ValueError ''A null character was found in the text''), sample_font, []) \<and>
   render sample_engine sample_font (PBytes [CHR ''a'', CHR 0x00]) (PBool True) (PObject 1 True)
       PNone =
     (Inl (ValueError ''A null character was found in the text''), sample_font, [])"
  using render_rejects_null [where u = "[97, 0, 98]" and b = "[CHR ''a'', CHR 0x00]"
      and e = sample_engine and self = sample_font and antialias = "PBool True"
      and color = "PObject 1 True" and background = PNone]
  by simp

text \<open>
  C4. After every call of \<^verbatim>\<open>render\<close> the instance's antialiased flag is what it was
  before the call: when the null test raises, when the engine's render raises and when
  it returns, and whatever the engine does to the instance meanwhile.
\<close>

theorem render_restores_antialiased:
  "antialiased (fst (snd (render e self text antialias color background))) = antialiased self"
  by (simp add: render_def Let_def split: prod.split sum.split)

theorem render_restores_antialiased_witness:
  "render sample_engine sample_font (PUnicode [104, 105]) (PInt 0) (PObject 1 True) PNone =
     (Inr 7, sample_font,
      [Call_render (sample_font\<lparr>antialiased := PBool False\<rparr>) (PUnicode [104, 105])
         (PObject 1 True) PNone]) \<and>
   render sample_engine sample_font (PUnicode [104, 105]) (PInt 0) PNone PNone =
     (Inl (EngineError 3), sample_font,
      [Call_render (sample_font\<lparr>antialiased := PBool False\<rparr>) (PUnicode [104, 105]) PNone
         PNone]) \<and>
   antialiased (fst (snd (render sample_engine sample_font (PUnicode [104, 105]) (PInt 0) PNone
     PNone))) = antialiased sample_font \<and>
   antialiased sample_font = PBool True"
  using render_restores_antialiased [of sample_engine sample_font "PUnicode [104, 105]" "PInt 0"
      PNone PNone]
  by (simp add: render_def has_null_def unull_def sample_engine_def sample_super_render_def
      sample_font_def)

text \<open>
  C8. \<^verbatim>\<open>render(None, ...)\<close> is \<^verbatim>\<open>render("", ...)\<close>: the same result, the same instance
  afterwards and the same call of the engine.
\<close>

theorem render_None:
  "render e self PNone antialias color background =
   render e self (empty_str e) antialias color background"
  by (simp add: render_def empty_str_def)

section \<open>Properties of the style flags and metrics\<close>

text \<open>
  C6. \<^verbatim>\<open>get_ascent\<close> and \<^verbatim>\<open>get_descent\<close> are the engine's sized ascender and descender,
  and \<^verbatim>\<open>get_height()\<close> is \<^verbatim>\<open>get_ascent() - get_descent() + 1\<close>, an exception of the first
  failing call included.
\<close>

theorem get_height_eq:
  "get_ascent e self = get_sized_ascender e self \<and>
   get_descent e self = get_sized_descender e self \<and>
   get_height e self =
     (case get_ascent e self of
        Inl err \<Rightarrow> Inl err
      | Inr a \<Rightarrow> (case get_descent e self of Inl err \<Rightarrow> Inl err | Inr d \<Rightarrow> Inr (a - d + 1)))"
  by (simp add: get_ascent_def get_descent_def get_height_def split: sum.split)

text \<open>
  C7. After \<^verbatim>\<open>set_bold(True)\<close>, \<^verbatim>\<open>get_bold()\<close> is \<^verbatim>\<open>True\<close>, and likewise for italic and
  underline; the three pairs read and write the engine's flags wide, oblique and
  underline, and no setter changes what the getters of the other two return.
\<close>

theorem style_flags:
  "get_bold (set_bold self (PBool True)) = PBool True \<and>
   get_italic (set_italic self (PBool True)) = PBool True \<and>
   get_underline (set_underline self (PBool True)) = PBool True \<and>
   get_bold self = wide self \<and> get_italic self = oblique self \<and>
   get_underline self = underline self \<and>
   wide (set_bold self v) = PBool (truthy v) \<and>
   oblique (set_italic self v) = PBool (truthy v) \<and>
   underline (set_underline self v) = PBool (truthy v) \<and>
   get_italic (set_bold self v) = get_italic self \<and>
   get_underline (set_bold self v) = get_underline self \<and>
   get_bold (set_italic self v) = get_bold self \<and>
   get_underline (set_italic self v) = get_underline self \<and>
   get_bold (set_underline self v) = get_bold self \<and>
   get_italic (set_underline self v) = get_italic self"
  by (simp add: set_bold_def get_bold_def set_italic_def get_italic_def set_underline_def
      get_underline_def)

text \<open>
  C10. Whatever value a setter is given, the flag it stores and the value its getter
  then returns is the boolean \<^verbatim>\<open>bool(value)\<close>, which is the value given only when that
  was a boolean. \<^verbatim>\<open>render\<close> returns what the engine's render primitive returns on the
  instance whose antialiased flag is the boolean \<^verbatim>\<open>bool(antialias)\<close>, and leaves a flag
  that is a boolean exactly when it was one before.
\<close>

theorem flags_coerced:
  "wide (set_bold self v) = PBool (truthy v) \<and>
   oblique (set_italic self v) = PBool (truthy v) \<and>
   underline (set_underline self v) = PBool (truthy v) \<and>
   get_bold (set_bold self v) = PBool (truthy v) \<and>
   get_italic (set_italic self v) = PBool (truthy v) \<and>
   get_underline (set_underline self v) = PBool (truthy v) \<and>
   is_bool (get_bold (set_bold self v)) \<and>
   is_bool (get_italic (set_italic self v)) \<and>
   is_bool (get_underline (set_underline self v)) \<and>
   (get_bold (set_bold self v) = v \<longleftrightarrow> is_bool v) \<and>
   (get_italic (set_italic self v) = v \<longleftrightarrow> is_bool v) \<and>
   (get_underline (set_underline self v) = v \<longleftrightarrow> is_bool v) \<and>
   snd (snd (render e self text antialias color background)) =
     (let text' = (if text = PNone then empty_str e else text)
      in if has_null text' then []
         else [Call_render (self\<lparr>antialiased := PBool (truthy antialias)\<rparr>) text' color
                 background]) \<and>
   is_bool (antialiased (fst (snd (render e self text antialias color background)))) =
     is_bool (antialiased self) \<and>
   render e self text antialias color background =
     (let text' = (if text = PNone then empty_str e else text);
          coerced = self\<lparr>antialiased := PBool (truthy antialias)\<rparr>
      in if has_null text'
         then (Inl (ValueError ''A null character was found in the text''), self, [])
         else (case fst (super_render e coerced text' color background) of
                 Inl err \<Rightarrow> Inl err
               | Inr sr \<Rightarrow> Inr (fst sr),
               (snd (super_render e coerced text' color background))
                 \<lparr>antialiased := antialiased self\<rparr>,
               [Call_render coerced text' color background]))"
proof (intro conjI)
  show "render e self text antialias color background =
     (let text' = (if text = PNone then empty_str e else text);
          coerced = self\<lparr>antialiased := PBool (truthy antialias)\<rparr>
      in if has_null text'
         then (Inl (ValueError ''A null character was found in the text''), self, [])
         else (case fst (super_render e coerced text' color background) of
                 Inl err \<Rightarrow> Inl err
               | Inr sr \<Rightarrow> Inr (fst sr),
               (snd (super_render e coerced text' color background))
                 \<lparr>antialiased := antialiased self\<rparr>,
               [Call_render coerced text' color background]))"
    by (simp add: render_def Let_def split: prod.split sum.split)
  show "snd (snd (render e self text antialias color background)) =
     (let text' = (if text = PNone then empty_str e else text)
      in if has_null text' then []
         else [Call_render (self\<lparr>antialiased := PBool (truthy antialias)\<rparr>) text' color
                 background])"
    by (simp add: render_def Let_def split: prod.split sum.split)
  show "is_bool (antialiased (fst (snd (render e self text antialias color background)))) =
     is_bool (antialiased self)"
    by (simp add: render_def Let_def split: prod.split sum.split)
qed (cases v; simp add: set_bold_def get_bold_def set_italic_def get_italic_def
      set_underline_def get_underline_def)+

theorem flags_coerced_witness:
  "render flag_reading_engine sample_font (PUnicode [104, 105]) (PInt 5) (PObject 1 True) PNone =
     (Inr 1, sample_font,
      [Call_render (sample_font\<lparr>antialiased := PBool True\<rparr>) (PUnicode [104, 105])
         (PObject 1 True) PNone]) \<and>
   render flag_reading_engine sample_font (PUnicode [104, 105]) (PUnicode []) (PObject 1 True)
       PNone =
     (Inr 0, sample_font,
      [Call_render (sample_font\<lparr>antialiased := PBool False\<rparr>) (PUnicode [104, 105])
         (PObject 1 True) PNone]) \<and>
   get_bold (set_bold sample_font (PInt 5)) = PBool True \<and>
   get_italic (set_italic sample_font (PUnicode [])) = PBool False"
proof -
  let ?hi = "PUnicode [104, 105]"
  let ?rhs = "\<lambda>antialias.
     (let text' = (if ?hi = PNone then empty_str flag_reading_engine else ?hi);
          coerced = sample_font\<lparr>antialiased := PBool (truthy antialias)\<rparr>
      in if has_null text'
         then (Inl (ValueError ''A null character was found in the text''), sample_font, [])
         else (case fst (super_render flag_reading_engine coerced text' (PObject 1 True) PNone) of
                 Inl err \<Rightarrow> Inl err
               | Inr sr \<Rightarrow> Inr (fst sr),
               (snd (super_render flag_reading_engine coerced text' (PObject 1 True) PNone))
                 \<lparr>antialiased := antialiased sample_font\<rparr>,
               [Call_render coerced text' (PObject 1 True) PNone]))"
  have nn: "\<not> has_null ?hi"
    by (simp add: has_null_def unull_def)
  have eng: "super_render flag_reading_engine = flag_reading_render"
    by (simp add: flag_reading_engine_def sample_engine_def)
  have same: "sample_font\<lparr>antialiased := antialiased sample_font\<rparr> = sample_font"
    by simp
  from flags_coerced [of sample_font "PInt 5" flag_reading_engine ?hi "PInt 5"
      "PObject 1 True" PNone]
  have "render flag_reading_engine sample_font ?hi (PInt 5) (PObject 1 True) PNone =
      ?rhs (PInt 5)"
    by (elim conjE)
  then have r1: "render flag_reading_engine sample_font ?hi (PInt 5) (PObject 1 True) PNone =
     (Inr 1, sample_font,
      [Call_render (sample_font\<lparr>antialiased := PBool True\<rparr>) ?hi (PObject 1 True) PNone])"
    by (simp add: nn eng flag_reading_render_def same)
  from flags_coerced [of sample_font "PUnicode []" flag_reading_engine ?hi "PUnicode []"
      "PObject 1 True" PNone]
  have "render flag_reading_engine sample_font ?hi (PUnicode []) (PObject 1 True) PNone =
      ?rhs (PUnicode [])"
    by (elim conjE)
  then have r2: "render flag_reading_engine sample_font ?hi (PUnicode []) (PObject 1 True)
      PNone =
     (Inr 0, sample_font,
      [Call_render (sample_font\<lparr>antialiased := PBool False\<rparr>) ?hi (PObject 1 True) PNone])"
    by (simp add: nn eng flag_reading_render_def same)
  from flags_coerced [of sample_font "PInt 5" flag_reading_engine ?hi "PInt 5"
      "PObject 1 True" PNone]
  have s1: "get_bold (set_bold sample_font (PInt 5)) = PBool True"
    by (elim conjE) simp
  from flags_coerced [of sample_font "PUnicode []" flag_reading_engine ?hi "PUnicode []"
      "PObject 1 True" PNone]
  have s2: "get_italic (set_italic sample_font (PUnicode [])) = PBool False"
    by (elim conjE) simp
  from r1 r2 s1 s2 show ?thesis
    by (intro conjI)
qed

section \<open>Properties of SysFont\<close>

text \<open>
  Given no constructor, \<^verbatim>\<open>SysFont\<close> hands its four arguments and the default
  constructor to the matcher; the default constructor builds the font from the path
  and the size and then sets bold and italic, and passes on the exception of a
  construction that fails.
\<close>

lemma SysFont_forwards:
  "SysFont e sysfont name sz bold italic None =
     sysfont name sz bold italic (default_constructor e)"
  by (simp add: SysFont_def)

lemma default_constructor_styles:
  "Font_init e fontpath sz = Inr f \<Longrightarrow>
     default_constructor e fontpath sz bold italic =
       Inr (f\<lparr>wide := PBool (truthy bold), oblique := PBool (truthy italic)\<rparr>)"
  by (simp add: default_constructor_def set_bold_def set_italic_def)

lemma default_constructor_error:
  "Font_init e fontpath sz = Inl err \<Longrightarrow>
     default_constructor e fontpath sz bold italic = Inl err"
  by (simp add: default_constructor_def)

text \<open>At the default resolution of 72 an unknown name gives the built-in font.\<close>

lemma SysFont_unknown_name_sample:
  "SysFont sample_engine (sysfont_SysFont fallback_resolve) (PUnicode [120]) 12 (PInt 1) (PInt 0)
     None =
   Inr (sample_font\<lparr>wide := PBool True, strength := PFloat (1 / 12), kerning := PBool False,
          origin := PBool True, pad := PBool True, ucs4 := PBool True, handle := 1\<rparr>)"
  by (simp add: SysFont_def sysfont_SysFont_def fallback_resolve_def default_constructor_def
      Font_init_def init_args_def sample_engine_def int_times_0_6875_def sample_super_init_def
      sample_font_def set_bold_def set_italic_def)

text \<open>
  C9. The claim: \<^verbatim>\<open>SysFont\<close> without a constructor always returns a font and never fails
  for an unknown name. The forwarding and the default constructor are as the claim
  says (the lemmas above). At a default resolution of 1 the name
  \<^verbatim>\<open>"nonexistent-font-xyz"\<close> resolves to the built-in font, whose construction ends in
  the \<^verbatim>\<open>NameError\<close> of the constructor, and \<^verbatim>\<open>SysFont\<close> raises it.
\<close>

theorem SysFont_unknown_name_low_resolution:
  "SysFont low_res_engine (sysfont_SysFont fallback_resolve)
     (PUnicode [110, 111, 110, 101, 120, 105, 115, 116, 101, 110, 116, 45, 102, 111, 110, 116,
                45, 120, 121, 122]) 12 (PInt 0) (PInt 0) None =
   Inl (NameError ''kwds'')"
  by (simp add: SysFont_def sysfont_SysFont_def fallback_resolve_def default_constructor_def
      Font_init_def init_args_def low_res_engine_def sample_engine_def int_times_0_6875_def)

end
